theory Spec2Isabelle
  imports Complex_Main
begin

section \<open>Values of the script\<close>

subsection \<open>Floating-point values and their comparison\<close>

text \<open>
  The threshold and the gene-expression values are IEEE doubles. The script only compares
  them, and a comparison of doubles is exact: on finite values it is the order of the
  numbers they denote, infinities are the extremes, and every comparison with NaN is false.
  No arithmetic on doubles is done by the script, so no rounding is modelled.
\<close>

datatype pyfloat = Finite real | PosInf | NegInf | NaN

text \<open>\<open>fgt a b\<close> is Python's \<^verbatim>\<open>a > b\<close> on floats.\<close>

fun fgt :: "pyfloat \<Rightarrow> pyfloat \<Rightarrow> bool" where
  "fgt NaN b = False"
| "fgt a NaN = False"
| "fgt (Finite a) (Finite b) = (b < a)"
| "fgt (Finite a) PosInf = False"
| "fgt (Finite a) NegInf = True"
| "fgt PosInf PosInf = False"
| "fgt PosInf b = True"
| "fgt NegInf b = False"

subsection \<open>Exceptions\<close>

datatype pyerror = ValueError | IndexError | OSError

text \<open>Sequencing of calls that may raise: the first exception ends the computation.\<close>

definition bnd :: "pyerror + 'a \<Rightarrow> ('a \<Rightarrow> pyerror + 'b) \<Rightarrow> pyerror + 'b" where
  "bnd m f = (case m of Inl e \<Rightarrow> Inl e | Inr v \<Rightarrow> f v)"

subsection \<open>One-dimensional arrays\<close>

text \<open>
  The six arrays of the bundle are one-dimensional; an array is the list of its elements.
  \<^verbatim>\<open>a > t\<close> and \<^verbatim>\<open>a == s\<close> against a scalar work elementwise, \<^verbatim>\<open>~m\<close> negates
  elementwise, \<^verbatim>\<open>np.any\<close> and \<^verbatim>\<open>np.sum\<close> reduce a boolean array.
\<close>

definition np_gt :: "pyfloat list \<Rightarrow> pyfloat \<Rightarrow> bool list" where
  "np_gt a t = map (\<lambda>v. fgt v t) a"

definition np_eq :: "string list \<Rightarrow> string \<Rightarrow> bool list" where
  "np_eq a s = map (\<lambda>v. v = s) a"

definition np_invert :: "bool list \<Rightarrow> bool list" where
  "np_invert m = map Not m"

definition np_any :: "bool list \<Rightarrow> bool" where
  "np_any m = list_ex (\<lambda>b. b) m"

definition np_sum :: "bool list \<Rightarrow> nat" where
  "np_sum m = length (filter (\<lambda>b. b) m)"

text \<open>
  \<^verbatim>\<open>m1 & m2\<close> on boolean arrays: elementwise on equal shapes; an array of one element is
  broadcast against the other; any other pair of shapes raises ValueError.
\<close>

definition np_and :: "bool list \<Rightarrow> bool list \<Rightarrow> pyerror + bool list" where
  "np_and a b =
     (if length a = length b then Inr (map (\<lambda>(p, q). p \<and> q) (zip a b))
      else if length a = 1 then Inr (map (\<lambda>q. hd a \<and> q) b)
      else if length b = 1 then Inr (map (\<lambda>p. p \<and> hd b) a)
      else Inl ValueError)"

text \<open>
  \<^verbatim>\<open>a[m]\<close> with a boolean array \<open>m\<close>: the elements of \<open>a\<close> where \<open>m\<close> is true, in order;
  IndexError when the mask is not as long as the array.
\<close>

definition bool_index :: "'a list \<Rightarrow> bool list \<Rightarrow> pyerror + 'a list" where
  "bool_index a m =
     (if length m \<noteq> length a then Inl IndexError
      else Inr (map fst (filter snd (zip a m))))"

subsection \<open>Formatting of integers\<close>

definition digit_char :: "nat \<Rightarrow> char" where
  "digit_char d = ''0123456789'' ! d"

fun str_nat :: "nat \<Rightarrow> string" where
  "str_nat n = (if n < 10 then [digit_char n] else str_nat (n div 10) @ [digit_char (n mod 10)])"

declare str_nat.simps [simp del]

section \<open>The figure\<close>

text \<open>
  The plotting library is not part of the script. A figure is modelled as the record of
  the drawing calls the script issues on it, in the order of the calls, with the arguments
  the script passes. Font sizes and weights of titles and axis labels, the figure size and
  the style set at import time are constants of the script and are not recorded.
\<close>

datatype face = PerPoint "string list" | Single string | FaceNone

record scatter_call =
  sc_x :: "pyfloat list"
  sc_y :: "pyfloat list"
  sc_face :: face
  sc_s :: real
  sc_alpha :: real
  sc_edgecolors :: string
  sc_linewidth :: real
  sc_zorder :: "real option"
  sc_label :: "string option"

record ref_line =
  ln_at :: pyfloat
  ln_color :: string
  ln_linestyle :: string
  ln_linewidth :: real
  ln_alpha :: real
  ln_label :: "string option"

record text_call =
  tx_x :: real
  tx_y :: real
  tx_s :: string
  tx_fontsize :: real
  tx_va :: string
  tx_bbox :: "string \<times> string \<times> real"

record legend_call =
  lg_handles :: "scatter_call list option"
  lg_loc :: string
  lg_frameon :: bool
  lg_fancybox :: bool
  lg_shadow :: bool
  lg_fontsize :: real

datatype artist =
    Scatter scatter_call
  | AxHLine ref_line
  | AxVLine ref_line
  | AxText text_call
  | AxLegend legend_call

record axes =
  ax_artists :: "artist list"
  ax_xlabel :: string
  ax_ylabel :: string
  ax_title :: string
  ax_grid :: "real \<times> string"

record figure =
  fig_suptitle :: string
  fig_ax1 :: axes
  fig_ax2 :: axes

text \<open>
  \<^verbatim>\<open>scatter(x, y, c=..., s=..., alpha=..., edgecolors=..., linewidth=..., zorder=..., label=...)\<close>.
  The library rejects coordinate arrays of different sizes, and a sequence of colours
  whose length is neither the number of points nor at most one, with ValueError. The
  colour values themselves are taken to be valid colour specifications.
\<close>

definition scatter ::
  "pyfloat list \<Rightarrow> pyfloat list \<Rightarrow> face \<Rightarrow> real \<Rightarrow> real \<Rightarrow> string \<Rightarrow> real \<Rightarrow>
   real option \<Rightarrow> string option \<Rightarrow> pyerror + scatter_call" where
  "scatter xs ys c s a e lw z l =
     (if length xs \<noteq> length ys then Inl ValueError
      else if (case c of PerPoint cs \<Rightarrow> length cs \<noteq> length xs \<and> 1 < length cs | _ \<Rightarrow> False)
      then Inl ValueError
      else Inr \<lparr>sc_x = xs, sc_y = ys, sc_face = c, sc_s = s, sc_alpha = a, sc_edgecolors = e,
                sc_linewidth = lw, sc_zorder = z, sc_label = l\<rparr>)"

section \<open>The data bundle\<close>

text \<open>The dictionary returned by \<^verbatim>\<open>load_data\<close>: six named arrays.\<close>

record cell_data =
  data_x :: "pyfloat list"
  data_y :: "pyfloat list"
  data_cell_types :: "string list"
  data_gene1 :: "pyfloat list"
  data_gene2 :: "pyfloat list"
  data_colors :: "string list"

section \<open>\<^verbatim>\<open>plot_single_cell_data\<close>\<close>

text \<open>The legend table, a dictionary iterated in insertion order: key, label, colour.\<close>

definition cell_types_legend :: "(string \<times> string \<times> string) list" where
  "cell_types_legend =
     [(''t_cells'', ''T Cells'', ''#e74c3c''),
      (''b_cells'', ''B Cells'', ''#3498db''),
      (''monocytes'', ''Monocytes'', ''#2ecc71''),
      (''nk_cells'', ''NK Cells'', ''#f39c12'')]"

text \<open>
  The body of the legend loop: an empty scatter with one colour, which the library always
  accepts, so the call cannot raise.
\<close>

definition legend_element :: "string \<Rightarrow> string \<times> string \<times> string \<Rightarrow> scatter_call" where
  "legend_element highlighted_type entry =
     (case entry of (ct_name, label, color) \<Rightarrow>
        \<lparr>sc_x = [], sc_y = [], sc_face = Single color,
         sc_s = (if ct_name = highlighted_type then 120 else 50),
         sc_alpha = 0.9,
         sc_edgecolors = (if ct_name = highlighted_type then ''gold'' else ''white''),
         sc_linewidth = (if ct_name = highlighted_type then 2.5 else 0.5),
         sc_zorder = None,
         sc_label = Some (label @ (if ct_name = highlighted_type then '' (Selected)'' else []))\<rparr>)"

text \<open>\<^verbatim>\<open>(gene1 > threshold) & (gene2 > threshold)\<close>, line 120.\<close>

definition above_threshold_mask :: "pyfloat list \<Rightarrow> pyfloat list \<Rightarrow> pyfloat \<Rightarrow> pyerror + bool list" where
  "above_threshold_mask gene1 gene2 threshold = np_and (np_gt gene1 threshold) (np_gt gene2 threshold)"

text \<open>The f-string of the annotation, line 135.\<close>

definition count_text :: "nat \<Rightarrow> nat \<Rightarrow> string" where
  "count_text n_above n_total = ''Cells above threshold: '' @ str_nat n_above @ ''/'' @ str_nat n_total"

text \<open>
  The function itself. \<open>fstr\<close> is the formatting of a float inside an f-string, a builtin
  of the language. The legend handles are made with \<^verbatim>\<open>plt.scatter\<close>, which draws on the
  current axes of pyplot: after \<^verbatim>\<open>plt.subplots(1, 2)\<close> that is the axes created last,
  \<^verbatim>\<open>axes[1]\<close>, so the four empty collections are artists of the second panel, while the
  legend that shows them is the one of the first panel.
\<close>

definition plot_single_cell_data ::
  "(pyfloat \<Rightarrow> string) \<Rightarrow> cell_data \<Rightarrow> pyfloat \<Rightarrow> string \<Rightarrow> string \<Rightarrow> pyerror + figure" where
  "plot_single_cell_data fstr data threshold title highlighted_type =
     (let x = data_x data; y = data_y data; cell_types = data_cell_types data;
          gene1 = data_gene1 data; gene2 = data_gene2 data; colors = data_colors data;
          highlight_mask = np_eq cell_types highlighted_type
      in
      bnd (bool_index x (np_invert highlight_mask)) (\<lambda>x0.
      bnd (bool_index y (np_invert highlight_mask)) (\<lambda>y0.
      bnd (bool_index colors (np_invert highlight_mask)) (\<lambda>c0.
      bnd (scatter x0 y0 (PerPoint c0) 50 0.6 ''white'' 0.5 None None) (\<lambda>others.
      bnd (if np_any highlight_mask then
             bnd (bool_index x highlight_mask) (\<lambda>x1.
             bnd (bool_index y highlight_mask) (\<lambda>y1.
             bnd (bool_index colors highlight_mask) (\<lambda>c1.
             bnd (scatter x1 y1 (PerPoint c1) 120 0.9 ''gold'' 2.5 (Some 100) None) (\<lambda>sel.
             Inr [Scatter sel]))))
           else Inr []) (\<lambda>highlighted.
      let legend_elements = map (legend_element highlighted_type) cell_types_legend in
      bnd (scatter gene1 gene2 (PerPoint colors) 80 0.6 ''white'' 0.5 None None) (\<lambda>expr.
      bnd (above_threshold_mask gene1 gene2 threshold) (\<lambda>above_threshold.
      bnd (if np_any above_threshold then
             bnd (bool_index gene1 above_threshold) (\<lambda>g1.
             bnd (bool_index gene2 above_threshold) (\<lambda>g2.
             bnd (scatter g1 g2 FaceNone 200 0.7 ''red'' 2.5 (Some 99) None) (\<lambda>ring.
             Inr [Scatter ring])))
           else Inr []) (\<lambda>rings.
      let n_above = np_sum above_threshold in
      Inr \<lparr>fig_suptitle = title,
           fig_ax1 =
             \<lparr>ax_artists =
                [Scatter others] @ highlighted @
                [AxLegend \<lparr>lg_handles = Some legend_elements, lg_loc = ''upper right'',
                           lg_frameon = True, lg_fancybox = True, lg_shadow = True,
                           lg_fontsize = 11\<rparr>],
              ax_xlabel = ''UMAP 1'', ax_ylabel = ''UMAP 2'',
              ax_title = ''Cell Type Clustering'', ax_grid = (0.3, ''--'')\<rparr>,
           fig_ax2 =
             \<lparr>ax_artists =
                map Scatter legend_elements @
                [Scatter expr,
                 AxHLine \<lparr>ln_at = threshold, ln_color = ''red'', ln_linestyle = ''--'',
                          ln_linewidth = 2.5, ln_alpha = 0.8,
                          ln_label = Some (''Threshold = '' @ fstr threshold)\<rparr>,
                 AxVLine \<lparr>ln_at = threshold, ln_color = ''red'', ln_linestyle = ''--'',
                          ln_linewidth = 2.5, ln_alpha = 0.8, ln_label = None\<rparr>] @
                rings @
                [AxLegend \<lparr>lg_handles = None, lg_loc = ''upper right'',
                           lg_frameon = True, lg_fancybox = True, lg_shadow = True,
                           lg_fontsize = 11\<rparr>,
                 AxText \<lparr>tx_x = 0.02, tx_y = 0.98,
                         tx_s = count_text n_above (length gene1),
                         tx_fontsize = 11, tx_va = ''top'',
                         tx_bbox = (''round'', ''wheat'', 0.7)\<rparr>],
              ax_xlabel = ''Gene 1 Expression'', ax_ylabel = ''Gene 2 Expression'',
              ax_title = ''Gene Expression (Threshold: '' @ fstr threshold @ '')'',
              ax_grid = (0.3, ''--'')\<rparr>\<rparr>)))))))))"

section \<open>Strings of the script\<close>

text \<open>
  A string is the list of the bytes of its UTF-8 encoding, which is what reaches standard
  output. The two non-ASCII signs of the messages are written as their bytes.
\<close>

definition cross_mark :: string where
  "cross_mark = [CHR 0xE2, CHR 0x9D, CHR 0x8C]"

definition check_mark :: string where
  "check_mark = [CHR 0xE2, CHR 0x9C, CHR 0x93]"

definition nl :: string where
  "nl = [CHR 0x0A]"

definition quote :: string where
  "quote = [CHR 0x27]"

text \<open>\<^verbatim>\<open>sep.join(xs)\<close>\<close>

fun join :: "string \<Rightarrow> string list \<Rightarrow> string" where
  "join sep [] = []"
| "join sep [s] = s"
| "join sep (s # t # ts) = s @ sep @ join sep (t # ts)"

text \<open>
  \<^verbatim>\<open>s.replace('_', ' ')\<close> and \<^verbatim>\<open>s.title()\<close>. The title-casing is the one of ASCII text:
  a letter that follows a letter is lowered, any other letter is raised, and other
  characters are kept. The script applies it to an accepted cell-type key only, which is
  ASCII.
\<close>

definition replace_underscore :: "string \<Rightarrow> string" where
  "replace_underscore s = map (\<lambda>c. if c = CHR ''_'' then CHR '' '' else c) s"

definition ascii_lower :: string where
  "ascii_lower = ''abcdefghijklmnopqrstuvwxyz''"

definition ascii_upper :: string where
  "ascii_upper = ''ABCDEFGHIJKLMNOPQRSTUVWXYZ''"

definition to_upper :: "char \<Rightarrow> char" where
  "to_upper c = (case map_of (zip ascii_lower ascii_upper) c of Some u \<Rightarrow> u | None \<Rightarrow> c)"

definition to_lower :: "char \<Rightarrow> char" where
  "to_lower c = (case map_of (zip ascii_upper ascii_lower) c of Some l \<Rightarrow> l | None \<Rightarrow> c)"

fun title_from :: "bool \<Rightarrow> string \<Rightarrow> string" where
  "title_from prev_cased [] = []"
| "title_from prev_cased (c # cs) =
     (if c \<in> set ascii_lower then (if prev_cased then c else to_upper c) # title_from True cs
      else if c \<in> set ascii_upper then (if prev_cased then to_lower c else c) # title_from True cs
      else c # title_from False cs)"

definition py_title :: "string \<Rightarrow> string" where
  "py_title s = title_from False s"

section \<open>The process and its environment\<close>

text \<open>
  What a run can see and change: the archives readable through \<^verbatim>\<open>np.load\<close>, by path;
  the image files, by path; and whether an image can be written at a path. What
  \<^verbatim>\<open>np.load\<close> and the six key lookups give for a path is one of: no such file; a failure
  of any other kind, with its message; the bundle.
\<close>

datatype npz = NotFound | Unreadable string | Archive cell_data

record 'img world =
  w_npz :: "string \<Rightarrow> npz"
  w_png :: "string \<Rightarrow> 'img option"
  w_writable :: "string \<Rightarrow> bool"

text \<open>
  What is not code of the script: the parser of \<^verbatim>\<open>float(s)\<close> (\<open>None\<close> when it raises
  ValueError), the formatting of a float in an f-string, and the rendering of a figure to
  the content of the saved image.
\<close>

record 'img library =
  float_of :: "string \<Rightarrow> pyfloat option"
  float_str :: "pyfloat \<Rightarrow> string"
  rasterize :: "figure \<Rightarrow> 'img"

text \<open>
  How a run ends: it reaches the end of \<^verbatim>\<open>main\<close>, it calls \<^verbatim>\<open>exit(n)\<close>, or an exception
  leaves \<^verbatim>\<open>main\<close> uncaught. The interpreter turns an uncaught exception into a traceback on
  standard error and exit status 1.
\<close>

datatype outcome = Finished | Exited nat | Uncaught pyerror

fun exit_status :: "outcome \<Rightarrow> nat" where
  "exit_status Finished = 0"
| "exit_status (Exited n) = n"
| "exit_status (Uncaught e) = 1"

text \<open>
  The observable steps of a run, in order: a \<^verbatim>\<open>print\<close> with its text, the attempt to load
  an archive, the call of the plotting function, the attempt to save the figure, and the
  display of the figure.
\<close>

datatype event = Print string | NpLoad string | PlotCall | SaveFig string | Show

record 'img run =
  run_outcome :: outcome
  run_events :: "event list"
  run_world :: "'img world"

section \<open>Constants\<close>

definition DATA_PATH :: string where
  "DATA_PATH = ''/data/experiment/single_cell_data.npz''"

definition DEFAULT_THRESHOLD :: pyfloat where
  "DEFAULT_THRESHOLD = Finite 2"

definition DEFAULT_TITLE :: string where
  "DEFAULT_TITLE = ''Single Cell Analysis''"

definition DEFAULT_CELL_TYPE :: string where
  "DEFAULT_CELL_TYPE = ''t_cells''"

definition valid_types :: "string list" where
  "valid_types = [''t_cells'', ''b_cells'', ''monocytes'', ''nk_cells'']"

definition output_file :: string where
  "output_file = ''/results/single_cell_viz.png''"

section \<open>\<^verbatim>\<open>load_data\<close>\<close>

definition not_found_message :: "string \<Rightarrow> string" where
  "not_found_message filepath = nl @ cross_mark @ '' Error: File '' @ quote @ filepath @ quote @ '' not found!''"

definition generate_hint :: string where
  "generate_hint = ''Please generate data first using: python generate_data.py''"

definition load_data :: "string \<Rightarrow> 'img world \<Rightarrow> event list \<times> (outcome + cell_data)" where
  "load_data filepath w =
     (case w_npz w filepath of
        Archive d \<Rightarrow> ([NpLoad filepath], Inr d)
      | NotFound \<Rightarrow>
          ([NpLoad filepath, Print (not_found_message filepath), Print generate_hint],
           Inl (Exited 1))
      | Unreadable e \<Rightarrow>
          ([NpLoad filepath, Print (nl @ cross_mark @ '' Error loading data: '' @ e)],
           Inl (Exited 1)))"

section \<open>\<^verbatim>\<open>main\<close>\<close>

text \<open>The resolved parameters: the three local variables set by lines 144 to 162.\<close>

record params =
  p_threshold :: pyfloat
  p_title :: string
  p_cell_type :: string

definition invalid_type_message :: "string \<Rightarrow> string" where
  "invalid_type_message cell_type = nl @ cross_mark @ '' Error: Invalid cell type '' @ quote @ cell_type @ quote"

definition valid_options_message :: string where
  "valid_options_message = ''Valid options: '' @ join '', '' valid_types"

text \<open>
  Lines 144 to 162 of \<^verbatim>\<open>main\<close>, on the whole of \<^verbatim>\<open>sys.argv\<close> (the program name is at
  index 0). The result is either the way the run ends there, with what was printed, or
  the three parameters.
\<close>

definition resolve_args ::
  "(string \<Rightarrow> pyfloat option) \<Rightarrow> string list \<Rightarrow> (event list \<times> outcome) + params" where
  "resolve_args parse argv =
     (case (if length argv > 1 then parse (argv ! 1) else Some DEFAULT_THRESHOLD) of
        None \<Rightarrow> Inl ([], Uncaught ValueError)
      | Some threshold \<Rightarrow>
          (let title = (if length argv > 2 then argv ! 2 else DEFAULT_TITLE) in
           if length argv > 3 then
             (let cell_type = argv ! 3 in
              if cell_type \<notin> set valid_types then
                Inl ([Print (invalid_type_message cell_type), Print valid_options_message],
                     Exited 1)
              else Inr \<lparr>p_threshold = threshold, p_title = title, p_cell_type = cell_type\<rparr>)
           else Inr \<lparr>p_threshold = threshold, p_title = title,
                     p_cell_type = DEFAULT_CELL_TYPE\<rparr>))"

text \<open>Lines 165 to 172: the parameter block.\<close>

definition display_parameters :: "(pyfloat \<Rightarrow> string) \<Rightarrow> params \<Rightarrow> event list" where
  "display_parameters fstr p =
     [Print (nl @ replicate 60 (CHR ''='')),
      Print ''Single Cell Data Visualization'',
      Print (replicate 60 (CHR ''='')),
      Print (''Data file:        '' @ DATA_PATH),
      Print (''Threshold:        '' @ fstr (p_threshold p)),
      Print (''Title:            '' @ p_title p),
      Print (''Highlighted Type: '' @ py_title (replace_underscore (p_cell_type p))),
      Print (replicate 60 (CHR ''='') @ nl)]"

text \<open>
  Lines 183 to 190: saving overwrites the image at the fixed path; when the path cannot
  be written the library raises, and nothing after it runs.
\<close>

definition save_and_show :: "'img library \<Rightarrow> figure \<Rightarrow> event list \<Rightarrow> 'img world \<Rightarrow> 'img run" where
  "save_and_show lib fig evs w =
     (if w_writable w output_file then
        \<lparr>run_outcome = Finished,
         run_events = evs @ [SaveFig output_file,
                             Print (check_mark @ '' Plot saved as: '' @ output_file),
                             Show,
                             Print (nl @ ''Done!'')],
         run_world = w\<lparr>w_png := (w_png w)(output_file := Some (rasterize lib fig))\<rparr>\<rparr>
      else
        \<lparr>run_outcome = Uncaught OSError,
         run_events = evs @ [SaveFig output_file],
         run_world = w\<rparr>)"

definition main :: "'img library \<Rightarrow> string list \<Rightarrow> 'img world \<Rightarrow> 'img run" where
  "main lib argv w =
     (case resolve_args (float_of lib) argv of
        Inl (evs, oc) \<Rightarrow> \<lparr>run_outcome = oc, run_events = evs, run_world = w\<rparr>
      | Inr p \<Rightarrow>
          (let evs1 = display_parameters (float_str lib) p @ [Print ''Loading data...''] in
           case load_data DATA_PATH w of
             (evs2, Inl oc) \<Rightarrow> \<lparr>run_outcome = oc, run_events = evs1 @ evs2, run_world = w\<rparr>
           | (evs2, Inr data) \<Rightarrow>
               (let evs3 = evs1 @ evs2 @
                      [Print (check_mark @ '' Loaded '' @ str_nat (length (data_x data)) @ '' cells''),
                       Print ''Creating visualization...'',
                       PlotCall] in
                case plot_single_cell_data (float_str lib) data (p_threshold p) (p_title p)
                       (p_cell_type p) of
                  Inl e \<Rightarrow> \<lparr>run_outcome = Uncaught e, run_events = evs3, run_world = w\<rparr>
                | Inr fig \<Rightarrow> save_and_show lib fig evs3 w)))"

section \<open>Vocabulary of the properties\<close>

text \<open>
  The invariant that the script assumes of a loaded bundle and never checks: the six
  arrays have one entry per cell.
\<close>

definition well_shaped :: "cell_data \<Rightarrow> bool" where
  "well_shaped d \<longleftrightarrow>
     length (data_y d) = length (data_x d) \<and>
     length (data_cell_types d) = length (data_x d) \<and>
     length (data_gene1 d) = length (data_x d) \<and>
     length (data_gene2 d) = length (data_x d) \<and>
     length (data_colors d) = length (data_x d)"

text \<open>The indices of the cells whose label is, and is not, the highlighted type.\<close>

definition matching :: "cell_data \<Rightarrow> string \<Rightarrow> nat list" where
  "matching d h = filter (\<lambda>i. data_cell_types d ! i = h) [0..<length (data_x d)]"

definition non_matching :: "cell_data \<Rightarrow> string \<Rightarrow> nat list" where
  "non_matching d h = filter (\<lambda>i. data_cell_types d ! i \<noteq> h) [0..<length (data_x d)]"

text \<open>The parts of a panel, in the order of the calls that made them.\<close>

fun texts_of :: "artist list \<Rightarrow> string list" where
  "texts_of [] = []"
| "texts_of (AxText tc # rest) = tx_s tc # texts_of rest"
| "texts_of (a # rest) = texts_of rest"

fun scatters_of :: "artist list \<Rightarrow> scatter_call list" where
  "scatters_of [] = []"
| "scatters_of (Scatter sc # rest) = sc # scatters_of rest"
| "scatters_of (a # rest) = scatters_of rest"

fun legend_handles_of :: "artist list \<Rightarrow> scatter_call list option list" where
  "legend_handles_of [] = []"
| "legend_handles_of (AxLegend lg # rest) = lg_handles lg # legend_handles_of rest"
| "legend_handles_of (a # rest) = legend_handles_of rest"

text \<open>
  The two treatments of a legend entry: the highlighted one (suffix on the label, marker
  size 120, gold edge of width 2.5) and the normal one (no suffix, size 50, white edge of
  width 0.5).
\<close>

definition endswith :: "string \<Rightarrow> string \<Rightarrow> bool" where
  "endswith s suffix \<longleftrightarrow> length suffix \<le> length s \<and> drop (length s - length suffix) s = suffix"

definition selected_treatment :: "scatter_call \<Rightarrow> bool" where
  "selected_treatment e \<longleftrightarrow>
     (case sc_label e of None \<Rightarrow> False | Some l \<Rightarrow> endswith l '' (Selected)'') \<and>
     sc_s e = 120 \<and> sc_edgecolors e = ''gold'' \<and> sc_linewidth e = 2.5"

definition normal_treatment :: "scatter_call \<Rightarrow> bool" where
  "normal_treatment e \<longleftrightarrow>
     (case sc_label e of None \<Rightarrow> False | Some l \<Rightarrow> \<not> endswith l '' (Selected)'') \<and>
     sc_s e = 50 \<and> sc_edgecolors e = ''white'' \<and> sc_linewidth e = 0.5"

text \<open>
  The z-order of a mark is the one passed to the call, and otherwise the default that the
  plotting library gives to marks of its kind. The defaults are the library's, so they
  are a parameter; \<open>documented_zorder\<close> holds the values the library documents.
\<close>

datatype mark_kind = Collection | LineMark | TextMark | LegendBox

fun artist_zorder :: "(mark_kind \<Rightarrow> real) \<Rightarrow> artist \<Rightarrow> real" where
  "artist_zorder dz (Scatter sc) = (case sc_zorder sc of Some z \<Rightarrow> z | None \<Rightarrow> dz Collection)"
| "artist_zorder dz (AxHLine rl) = dz LineMark"
| "artist_zorder dz (AxVLine rl) = dz LineMark"
| "artist_zorder dz (AxText tc) = dz TextMark"
| "artist_zorder dz (AxLegend lg) = dz LegendBox"

definition documented_zorder :: "mark_kind \<Rightarrow> real" where
  "documented_zorder k = (case k of Collection \<Rightarrow> 1 | LineMark \<Rightarrow> 2 | TextMark \<Rightarrow> 3 | LegendBox \<Rightarrow> 5)"

text \<open>
  The positional arguments as the command line gives them: \<open>positional argv k\<close> is the
  \<open>k\<close>-th one when it is supplied (index 0 is the program name). An argument list is
  accepted when a supplied threshold parses and a supplied cell type is one of the four
  keys.
\<close>

definition positional :: "string list \<Rightarrow> nat \<Rightarrow> string option" where
  "positional argv k = (if k < length argv then Some (argv ! k) else None)"

definition accepted :: "(string \<Rightarrow> pyfloat option) \<Rightarrow> string list \<Rightarrow> bool" where
  "accepted parse argv \<longleftrightarrow>
     (case positional argv 1 of None \<Rightarrow> True | Some s \<Rightarrow> parse s \<noteq> None) \<and>
     (case positional argv 3 of None \<Rightarrow> True | Some c \<Rightarrow> c \<in> set valid_types)"

section \<open>Example inputs\<close>

text \<open>
  Four cells with the gene values of the specification's example, and a bundle with a
  single B cell.
\<close>

definition example_data :: cell_data where
  "example_data =
     \<lparr>data_x = [Finite 0, Finite 1, Finite 2, Finite 3],
      data_y = [Finite 0, Finite 1, Finite 0, Finite 1],
      data_cell_types = [''t_cells'', ''b_cells'', ''t_cells'', ''nk_cells''],
      data_gene1 = [Finite 1, Finite 4, Finite 5, Finite 2],
      data_gene2 = [Finite 1, Finite 5, Finite 2, Finite 6],
      data_colors = [''#e74c3c'', ''#3498db'', ''#e74c3c'', ''#f39c12'']\<rparr>"

definition b_cells_only :: cell_data where
  "b_cells_only =
     \<lparr>data_x = [Finite 1], data_y = [Finite 2], data_cell_types = [''b_cells''],
      data_gene1 = [Finite 0], data_gene2 = [Finite 0], data_colors = [''#3498db'']\<rparr>"

text \<open>
  A stand-in for the builtins on the few values the examples use: the parser accepts
  three numerals and rejects every other text, and an image is the figure itself.
\<close>

definition example_float_str :: "pyfloat \<Rightarrow> string" where
  "example_float_str v =
     (if v = Finite 2 then ''2.0'' else if v = Finite 2.5 then ''2.5''
      else if v = Finite 3 then ''3.0'' else ''nan'')"

definition example_library :: "figure library" where
  "example_library =
     \<lparr>float_of = map_of [(''2.0'', Finite 2), (''2.5'', Finite 2.5), (''3.0'', Finite 3)],
      float_str = example_float_str,
      rasterize = (\<lambda>fig. fig)\<rparr>"

definition example_world :: "figure world" where
  "example_world =
     \<lparr>w_npz = (\<lambda>path. if path = DATA_PATH then Archive example_data else NotFound),
      w_png = (\<lambda>path. None),
      w_writable = (\<lambda>path. True)\<rparr>"

definition empty_world :: "figure world" where
  "empty_world =
     \<lparr>w_npz = (\<lambda>path. NotFound), w_png = (\<lambda>path. None), w_writable = (\<lambda>path. True)\<rparr>"



section \<open>Auxiliary facts\<close>

lemma bnd_Inr [simp]: "bnd (Inr v) f = f v"
  by (simp add: bnd_def)

lemma bnd_Inl [simp]: "bnd (Inl e) f = Inl e"
  by (simp add: bnd_def)

lemma zip_conv_nth:
  "length a = length m \<Longrightarrow> zip a m = map (\<lambda>i. (a ! i, m ! i)) [0..<length a]"
  by (rule nth_equalityI) simp_all

text \<open>Boolean indexing, by positions.\<close>

lemma bool_index_nth:
  assumes "length m = length a"
  shows "bool_index a m = Inr (map (\<lambda>i. a ! i) (filter (\<lambda>i. m ! i) [0..<length a]))"
proof -
  have "zip a m = map (\<lambda>i. (a ! i, m ! i)) [0..<length a]"
    using assms by (simp add: zip_conv_nth)
  then have "map fst (filter snd (zip a m)) = map (\<lambda>i. a ! i) (filter (\<lambda>i. m ! i) [0..<length a])"
    by (simp add: filter_map comp_def)
  then show ?thesis
    using assms by (simp add: bool_index_def)
qed

lemma bool_index_np_eq:
  assumes "length cts = length a"
  shows "bool_index a (np_eq cts h) = Inr (map (\<lambda>i. a ! i) (filter (\<lambda>i. cts ! i = h) [0..<length a]))"
proof -
  have "filter (\<lambda>i. np_eq cts h ! i) [0..<length a] = filter (\<lambda>i. cts ! i = h) [0..<length a]"
    using assms by (intro filter_cong) (simp_all add: np_eq_def)
  then show ?thesis
    using assms by (simp add: bool_index_nth np_eq_def)
qed

lemma bool_index_np_invert:
  assumes "length cts = length a"
  shows "bool_index a (np_invert (np_eq cts h)) =
         Inr (map (\<lambda>i. a ! i) (filter (\<lambda>i. cts ! i \<noteq> h) [0..<length a]))"
proof -
  have "filter (\<lambda>i. np_invert (np_eq cts h) ! i) [0..<length a] =
        filter (\<lambda>i. cts ! i \<noteq> h) [0..<length a]"
    using assms by (intro filter_cong) (simp_all add: np_eq_def np_invert_def)
  then show ?thesis
    using assms by (simp add: bool_index_nth np_eq_def np_invert_def)
qed

lemma bool_index_upt:
  assumes "length a = n"
  shows "bool_index a (map P [0..<n]) = Inr (map (\<lambda>i. a ! i) (filter P [0..<n]))"
proof -
  have "filter (\<lambda>i. map P [0..<n] ! i) [0..<n] = filter P [0..<n]"
    by (intro filter_cong) simp_all
  then show ?thesis
    using assms by (simp add: bool_index_nth)
qed

lemma np_any_set: "np_any m = (True \<in> set m)"
  by (auto simp add: np_any_def list_ex_iff)

lemma np_any_np_eq: "np_any (np_eq cts h) = (h \<in> set cts)"
  by (auto simp add: np_any_set np_eq_def)

text \<open>The conjunction of two masks of one length, and the count of a mask.\<close>

lemma np_and_same_length:
  assumes "length a = length b"
  shows "np_and a b = Inr (map (\<lambda>i. a ! i \<and> b ! i) [0..<length a])"
proof -
  have "map (\<lambda>(p, q). p \<and> q) (zip a b) = map (\<lambda>i. a ! i \<and> b ! i) [0..<length a]"
    using assms by (simp add: zip_conv_nth)
  then show ?thesis
    using assms by (simp add: np_and_def)
qed

lemma above_threshold_mask_nth:
  "length gene1 = length gene2 \<Longrightarrow>
   above_threshold_mask gene1 gene2 t =
     Inr (map (\<lambda>i. fgt (gene1 ! i) t \<and> fgt (gene2 ! i) t) [0..<length gene1])"
  by (simp add: above_threshold_mask_def np_gt_def np_and_same_length)



text \<open>A scatter call whose arguments have one size is accepted.\<close>

lemma scatter_per_point:
  "length ys = length xs \<Longrightarrow> length cs = length xs \<Longrightarrow>
   scatter xs ys (PerPoint cs) s a e lw z l =
     Inr \<lparr>sc_x = xs, sc_y = ys, sc_face = PerPoint cs, sc_s = s, sc_alpha = a,
          sc_edgecolors = e, sc_linewidth = lw, sc_zorder = z, sc_label = l\<rparr>"
  by (simp add: scatter_def)

lemma scatter_no_face:
  "length ys = length xs \<Longrightarrow>
   scatter xs ys FaceNone s a e lw z l =
     Inr \<lparr>sc_x = xs, sc_y = ys, sc_face = FaceNone, sc_s = s, sc_alpha = a,
          sc_edgecolors = e, sc_linewidth = lw, sc_zorder = z, sc_label = l\<rparr>"
  by (simp add: scatter_def)

lemma texts_of_append [simp]: "texts_of (xs @ ys) = texts_of xs @ texts_of ys"
  by (induction xs rule: texts_of.induct) simp_all

lemma texts_of_scatters [simp]: "texts_of (map (Scatter \<circ> f) ss) = []"
  by (induction ss) simp_all

lemma scatters_of_append [simp]: "scatters_of (xs @ ys) = scatters_of xs @ scatters_of ys"
  by (induction xs rule: scatters_of.induct) simp_all

text \<open>On a well-shaped bundle no call of the plotting function raises.\<close>

lemmas plot_simps =
  plot_single_cell_data_def Let_def bool_index_np_eq bool_index_np_invert np_any_np_eq
  bool_index_upt scatter_per_point scatter_no_face above_threshold_mask_nth

lemma plot_panel_a:
  assumes "well_shaped d"
  shows "\<exists>fig. plot_single_cell_data fstr d t title h = Inr fig \<and>
           ax_artists (fig_ax1 fig) =
             Scatter \<lparr>sc_x = map (\<lambda>i. data_x d ! i) (non_matching d h),
                      sc_y = map (\<lambda>i. data_y d ! i) (non_matching d h),
                      sc_face = PerPoint (map (\<lambda>i. data_colors d ! i) (non_matching d h)),
                      sc_s = 50, sc_alpha = 0.6, sc_edgecolors = ''white'', sc_linewidth = 0.5,
                      sc_zorder = None, sc_label = None\<rparr> #
             (if h \<in> set (data_cell_types d) then
                [Scatter \<lparr>sc_x = map (\<lambda>i. data_x d ! i) (matching d h),
                          sc_y = map (\<lambda>i. data_y d ! i) (matching d h),
                          sc_face = PerPoint (map (\<lambda>i. data_colors d ! i) (matching d h)),
                          sc_s = 120, sc_alpha = 0.9, sc_edgecolors = ''gold'',
                          sc_linewidth = 2.5, sc_zorder = Some 100, sc_label = None\<rparr>]
              else []) @
             [AxLegend \<lparr>lg_handles = Some (map (legend_element h) cell_types_legend),
                        lg_loc = ''upper right'', lg_frameon = True, lg_fancybox = True,
                        lg_shadow = True, lg_fontsize = 11\<rparr>]"
  using assms by (simp add: well_shaped_def matching_def non_matching_def plot_simps)


lemma well_shaped_example: "well_shaped example_data"
  by (simp add: well_shaped_def example_data_def)

text \<open>The four legend entries, for a highlighted type among the four keys.\<close>

lemma legend_elements_treatment:
  assumes "h \<in> set valid_types"
  shows "map sc_face (map (legend_element h) cell_types_legend) =
           [Single ''#e74c3c'', Single ''#3498db'', Single ''#2ecc71'', Single ''#f39c12'']"
    and "map sc_label (map (legend_element h) cell_types_legend) =
           map (\<lambda>(k, l). Some (if k = h then l @ '' (Selected)'' else l))
             [(''t_cells'', ''T Cells''), (''b_cells'', ''B Cells''),
              (''monocytes'', ''Monocytes''), (''nk_cells'', ''NK Cells'')]"
    and "map selected_treatment (map (legend_element h) cell_types_legend) = map (\<lambda>k. k = h) valid_types"
    and "map normal_treatment (map (legend_element h) cell_types_legend) = map (\<lambda>k. k \<noteq> h) valid_types"
    and "length (filter selected_treatment (map (legend_element h) cell_types_legend)) = 1"
    and "length (filter normal_treatment (map (legend_element h) cell_types_legend)) = 3"
  using assms
  by (auto simp add: valid_types_def cell_types_legend_def legend_element_def
      selected_treatment_def normal_treatment_def endswith_def)


text \<open>The argument block of \<^verbatim>\<open>main\<close>.\<close>

lemma resolve_args_take: "resolve_args parse (take 4 argv) = resolve_args parse argv"
  by (simp add: resolve_args_def Let_def split: option.splits)

lemma main_take: "main lib (take 4 argv) w = main lib argv w"
  by (simp add: main_def resolve_args_take)

lemma resolve_args_unparseable:
  "parse a = None \<Longrightarrow> resolve_args parse (prog # a # rest) = Inl ([], Uncaught ValueError)"
  by (simp add: resolve_args_def)

lemma resolve_args_invalid_type:
  "parse a = Some th \<Longrightarrow> c \<notin> set valid_types \<Longrightarrow>
   resolve_args parse (prog # a # t # c # rest) =
     Inl ([Print (invalid_type_message c), Print valid_options_message], Exited 1)"
  by (simp add: resolve_args_def)

lemma resolve_args_not_finished [simp]: "resolve_args parse argv \<noteq> Inl (evs, Finished)"
  by (simp add: resolve_args_def Let_def split: option.splits)

lemma resolve_args_success: "(\<exists>p. resolve_args parse argv = Inr p) = accepted parse argv"
  by (auto simp add: resolve_args_def accepted_def positional_def Let_def
      split: option.splits if_splits)

lemma resolve_args_fields:
  assumes "resolve_args parse argv = Inr p"
  shows "case positional argv 1 of None \<Rightarrow> p_threshold p = Finite 2
                                 | Some s \<Rightarrow> parse s = Some (p_threshold p)"
    and "case positional argv 2 of None \<Rightarrow> p_title p = ''Single Cell Analysis''
                                 | Some s \<Rightarrow> p_title p = s"
    and "case positional argv 3 of None \<Rightarrow> p_cell_type p = ''t_cells''
                                 | Some s \<Rightarrow> p_cell_type p = s"
  using assms
  by (auto simp add: resolve_args_def positional_def DEFAULT_THRESHOLD_def
      DEFAULT_TITLE_def DEFAULT_CELL_TYPE_def Let_def split: option.splits if_splits)

lemma valid_options_text:
  "valid_options_message = ''Valid options: t_cells, b_cells, monocytes, nk_cells''"
  by (simp add: valid_options_message_def valid_types_def)

lemma not_found_text:
  "not_found_message DATA_PATH =
     nl @ cross_mark @ '' Error: File '' @ quote @ ''/data/experiment/single_cell_data.npz'' @ quote @ '' not found!''"
  by (simp add: not_found_message_def DATA_PATH_def)

text \<open>Runs on a world without the archive.\<close>

lemma main_missing_file:
  assumes "w_npz w DATA_PATH = NotFound"
  shows "exit_status (run_outcome (main lib argv w)) = 1"
    and "run_world (main lib argv w) = w"
  using assms
  by (auto simp add: main_def resolve_args_def load_data_def Let_def split: option.splits if_splits)

lemma main_missing_file_accepted:
  assumes "w_npz w DATA_PATH = NotFound" and "resolve_args (float_of lib) argv = Inr p"
  shows "main lib argv w =
         \<lparr>run_outcome = Exited 1,
          run_events = display_parameters (float_str lib) p @
            [Print ''Loading data...'', NpLoad DATA_PATH,
             Print (not_found_message DATA_PATH), Print generate_hint],
          run_world = w\<rparr>"
  using assms by (simp add: main_def load_data_def)




section \<open>The gene-expression panel\<close>



section \<open>Rejected arguments\<close>

text \<open>
  C2, as amended. For every argument list whose third positional argument is not one of
  the four keys, the run ends with exit status 1, leaves the world as it was, and makes
  no attempt to load the archive, to plot or to save; and when the first positional
  argument parses as a float, the run ends by \<^verbatim>\<open>exit(1)\<close> after printing exactly the
  invalid-type line and the line that lists the four valid options.
\<close>

theorem invalid_cell_type_rejected:
  "c \<notin> set valid_types \<Longrightarrow>
   exit_status (run_outcome (main lib (prog # a # t # c # rest) w)) = 1 \<and>
   run_world (main lib (prog # a # t # c # rest) w) = w \<and>
   NpLoad DATA_PATH \<notin> set (run_events (main lib (prog # a # t # c # rest) w)) \<and>
   PlotCall \<notin> set (run_events (main lib (prog # a # t # c # rest) w)) \<and>
   SaveFig output_file \<notin> set (run_events (main lib (prog # a # t # c # rest) w)) \<and>
   (float_of lib a \<noteq> None \<longrightarrow>
      main lib (prog # a # t # c # rest) w =
        \<lparr>run_outcome = Exited 1,
         run_events = [Print (invalid_type_message c),
                       Print ''Valid options: t_cells, b_cells, monocytes, nk_cells''],
         run_world = w\<rparr>)"
proof (cases "float_of lib a")
  case None
  then show ?thesis
    by (simp add: main_def resolve_args_unparseable)
next
  case (Some th)
  assume "c \<notin> set valid_types"
  with Some show ?thesis
    by (simp add: main_def resolve_args_invalid_type valid_options_text)
qed

theorem invalid_cell_type_rejected_witness:
  "''x_cells'' \<notin> set valid_types \<and> float_of example_library ''2.5'' \<noteq> None \<and>
   main example_library [''visualize_data.py'', ''2.5'', ''Demo'', ''x_cells''] example_world =
     \<lparr>run_outcome = Exited 1,
      run_events = [Print (invalid_type_message ''x_cells''),
                    Print ''Valid options: t_cells, b_cells, monocytes, nk_cells''],
      run_world = example_world\<rparr>"
proof -
  have out: "''x_cells'' \<notin> set valid_types"
    by (simp add: valid_types_def)
  have ok: "float_of example_library ''2.5'' \<noteq> None"
    by (simp add: example_library_def)
  from out ok
    invalid_cell_type_rejected [OF out, of example_library "''visualize_data.py''" "''2.5''" "''Demo''" "[]" example_world]
  show ?thesis
    by (intro conjI) simp_all
qed

text \<open>
  C2 as first stated, for every such third argument, fails where the threshold does not
  parse: with the arguments
  \<^verbatim>\<open>abc Demo x_cells\<close> the cell type is not one of the four keys, and the run prints
  nothing at all, so the list of valid options is not printed.
\<close>

theorem invalid_cell_type_counterexample:
  "''x_cells'' \<notin> set valid_types \<and>
   run_events (main example_library [''visualize_data.py'', ''abc'', ''Demo'', ''x_cells''] example_world) = []"
  by (simp add: valid_types_def main_def resolve_args_def example_library_def)

section \<open>A missing data file\<close>

text \<open>
  C3, as amended. For every run in which the archive at the fixed path is missing, the
  exit status is 1 and the world, the output image with it, is left as it was; and when
  the arguments are accepted, the run ends by \<^verbatim>\<open>exit(1)\<close> and what it prints after the
  parameter block and the loading line is the error line that holds the missing path,
  then the hint to run the data generation.
\<close>

theorem missing_data_file:
  "w_npz w DATA_PATH = NotFound \<Longrightarrow>
   exit_status (run_outcome (main lib argv w)) = 1 \<and>
   run_world (main lib argv w) = w \<and>
   (\<forall>p. resolve_args (float_of lib) argv = Inr p \<longrightarrow>
      run_outcome (main lib argv w) = Exited 1 \<and>
      run_events (main lib argv w) =
        display_parameters (float_str lib) p @
        [Print ''Loading data...'', NpLoad DATA_PATH,
         Print (nl @ cross_mark @ '' Error: File '' @ quote @
                ''/data/experiment/single_cell_data.npz'' @ quote @ '' not found!''),
         Print ''Please generate data first using: python generate_data.py''])"
  by (simp add: main_missing_file main_missing_file_accepted not_found_text generate_hint_def)

theorem missing_data_file_witness:
  "w_npz empty_world DATA_PATH = NotFound \<and>
   resolve_args (float_of example_library) [''visualize_data.py''] =
     Inr \<lparr>p_threshold = Finite 2, p_title = ''Single Cell Analysis'', p_cell_type = ''t_cells''\<rparr> \<and>
   exit_status (run_outcome (main example_library [''visualize_data.py''] empty_world)) = 1 \<and>
   run_world (main example_library [''visualize_data.py''] empty_world) = empty_world \<and>
   run_events (main example_library [''visualize_data.py''] empty_world) =
     [Print (nl @ replicate 60 (CHR ''='')),
      Print ''Single Cell Data Visualization'',
      Print (replicate 60 (CHR ''='')),
      Print ''Data file:        /data/experiment/single_cell_data.npz'',
      Print ''Threshold:        2.0'',
      Print ''Title:            Single Cell Analysis'',
      Print ''Highlighted Type: T Cells'',
      Print (replicate 60 (CHR ''='') @ nl),
      Print ''Loading data...'',
      NpLoad ''/data/experiment/single_cell_data.npz'',
      Print (nl @ cross_mark @ '' Error: File '' @ quote @
             ''/data/experiment/single_cell_data.npz'' @ quote @ '' not found!''),
      Print ''Please generate data first using: python generate_data.py'']"
proof -
  have missing: "w_npz empty_world DATA_PATH = NotFound"
    by (simp add: empty_world_def)
  have res: "resolve_args (float_of example_library) [''visualize_data.py''] =
     Inr \<lparr>p_threshold = Finite 2, p_title = ''Single Cell Analysis'', p_cell_type = ''t_cells''\<rparr>"
    by (simp add: resolve_args_def DEFAULT_THRESHOLD_def DEFAULT_TITLE_def DEFAULT_CELL_TYPE_def)
  have block: "display_parameters (float_str example_library)
       \<lparr>p_threshold = Finite 2, p_title = ''Single Cell Analysis'', p_cell_type = ''t_cells''\<rparr> =
     [Print (nl @ replicate 60 (CHR ''='')),
      Print ''Single Cell Data Visualization'',
      Print (replicate 60 (CHR ''='')),
      Print ''Data file:        /data/experiment/single_cell_data.npz'',
      Print ''Threshold:        2.0'',
      Print ''Title:            Single Cell Analysis'',
      Print ''Highlighted Type: T Cells'',
      Print (replicate 60 (CHR ''='') @ nl)]"
    by (simp add: display_parameters_def example_library_def example_float_str_def DATA_PATH_def
        py_title_def replace_underscore_def ascii_lower_def ascii_upper_def to_upper_def to_lower_def)
  from missing_data_file [OF missing, of example_library "[''visualize_data.py'']"] res
  have "exit_status (run_outcome (main example_library [''visualize_data.py''] empty_world)) = 1"
    and "run_world (main example_library [''visualize_data.py''] empty_world) = empty_world"
    and "run_events (main example_library [''visualize_data.py''] empty_world) =
       display_parameters (float_str example_library)
         \<lparr>p_threshold = Finite 2, p_title = ''Single Cell Analysis'', p_cell_type = ''t_cells''\<rparr> @
       [Print ''Loading data...'', NpLoad DATA_PATH,
        Print (nl @ cross_mark @ '' Error: File '' @ quote @
               ''/data/experiment/single_cell_data.npz'' @ quote @ '' not found!''),
        Print ''Please generate data first using: python generate_data.py'']"
    by blast+
  with missing res show ?thesis
    unfolding block by (simp add: DATA_PATH_def)
qed

text \<open>
  C3 as first stated, for every run with the archive missing, fails where the arguments
  are not accepted: with the arguments
  \<^verbatim>\<open>2.5 Demo x_cells\<close> and the archive missing, the run prints the two lines about the
  cell type and never the line about the missing file.
\<close>

theorem missing_data_file_counterexample:
  "w_npz empty_world DATA_PATH = NotFound \<and>
   run_events (main example_library [''visualize_data.py'', ''2.5'', ''Demo'', ''x_cells''] empty_world) =
     [Print (invalid_type_message ''x_cells''), Print valid_options_message] \<and>
   Print (not_found_message DATA_PATH) \<notin>
     set (run_events (main example_library [''visualize_data.py'', ''2.5'', ''Demo'', ''x_cells''] empty_world))"
  by (simp add: empty_world_def main_def resolve_args_def example_library_def valid_types_def
      not_found_message_def invalid_type_message_def valid_options_message_def nl_def cross_mark_def)

section \<open>The legend of the clustering panel\<close>

text \<open>
  C4. For every bundle of six arrays of one length, whatever cell types it holds, and
  every highlighted type among the four keys, the first panel has one legend, with
  exactly four entries in the order of the table, each with the colour and the label
  of its key; the entry of the highlighted type, and only it, has the suffix
  " (Selected)", marker size 120 and a gold edge of width 2.5, and the three others have
  no suffix, size 50 and a white edge of width 0.5.
\<close>

theorem legend_four_entries:
  assumes "well_shaped d" and "h \<in> set valid_types"
  shows "\<exists>fig hs. plot_single_cell_data fstr d t title h = Inr fig \<and>
           legend_handles_of (ax_artists (fig_ax1 fig)) = [Some hs] \<and>
           length hs = 4 \<and>
           map sc_face hs = [Single ''#e74c3c'', Single ''#3498db'', Single ''#2ecc71'', Single ''#f39c12''] \<and>
           map sc_label hs =
             map (\<lambda>(k, l). Some (if k = h then l @ '' (Selected)'' else l))
               [(''t_cells'', ''T Cells''), (''b_cells'', ''B Cells''),
                (''monocytes'', ''Monocytes''), (''nk_cells'', ''NK Cells'')] \<and>
           map selected_treatment hs = map (\<lambda>k. k = h) valid_types \<and>
           map normal_treatment hs = map (\<lambda>k. k \<noteq> h) valid_types \<and>
           length (filter selected_treatment hs) = 1 \<and>
           length (filter normal_treatment hs) = 3"
proof -
  from plot_panel_a [OF assms(1), of fstr t title h] obtain fig where
    fig: "plot_single_cell_data fstr d t title h = Inr fig"
    and leg: "legend_handles_of (ax_artists (fig_ax1 fig)) = [Some (map (legend_element h) cell_types_legend)]"
    by (auto split: if_splits)
  have "length (map (legend_element h) cell_types_legend) = 4"
    by (simp add: cell_types_legend_def)
  with fig leg legend_elements_treatment [OF assms(2)] show ?thesis
    by (intro exI conjI) assumption+
qed

theorem legend_four_entries_witness:
  "well_shaped b_cells_only \<and> ''t_cells'' \<in> set valid_types \<and>
   (\<exists>fig hs. plot_single_cell_data example_float_str b_cells_only (Finite 2) ''Demo'' ''t_cells'' = Inr fig \<and>
      legend_handles_of (ax_artists (fig_ax1 fig)) = [Some hs] \<and>
      length hs = 4 \<and>
      map sc_label hs = [Some ''T Cells (Selected)'', Some ''B Cells'', Some ''Monocytes'', Some ''NK Cells''] \<and>
      map selected_treatment hs = [True, False, False, False] \<and>
      map normal_treatment hs = [False, True, True, True])"
proof -
  have ws: "well_shaped b_cells_only"
    by (simp add: well_shaped_def b_cells_only_def)
  have mem: "''t_cells'' \<in> set valid_types"
    by (simp add: valid_types_def)
  from legend_four_entries [OF ws mem, of example_float_str "Finite 2" "''Demo''"]
  obtain fig hs where
    "plot_single_cell_data example_float_str b_cells_only (Finite 2) ''Demo'' ''t_cells'' = Inr fig"
    "legend_handles_of (ax_artists (fig_ax1 fig)) = [Some hs]"
    "length hs = 4"
    "map sc_label hs =
       map (\<lambda>(k, l). Some (if k = ''t_cells'' then l @ '' (Selected)'' else l))
         [(''t_cells'', ''T Cells''), (''b_cells'', ''B Cells''),
          (''monocytes'', ''Monocytes''), (''nk_cells'', ''NK Cells'')]"
    "map selected_treatment hs = map (\<lambda>k. k = ''t_cells'') valid_types"
    "map normal_treatment hs = map (\<lambda>k. k \<noteq> ''t_cells'') valid_types"
    by (elim exE conjE)
  then have "\<exists>fig hs. plot_single_cell_data example_float_str b_cells_only (Finite 2) ''Demo'' ''t_cells'' = Inr fig \<and>
      legend_handles_of (ax_artists (fig_ax1 fig)) = [Some hs] \<and>
      length hs = 4 \<and>
      map sc_label hs = [Some ''T Cells (Selected)'', Some ''B Cells'', Some ''Monocytes'', Some ''NK Cells''] \<and>
      map selected_treatment hs = [True, False, False, False] \<and>
      map normal_treatment hs = [False, True, True, True]"
    by (intro exI [of _ fig] exI [of _ hs]) (simp add: valid_types_def)
  with ws mem show ?thesis
    by (intro conjI)
qed

section \<open>The clustering panel\<close>

text \<open>
  C5, as amended. For every bundle of six arrays of one length and every highlighted
  type, the first scatter call of the first panel draws exactly the cells whose label
  differs from the highlighted type, with no z-order of its own. When at least one cell
  has the highlighted label, a second scatter call follows, draws exactly the cells with
  that label, and carries z-order 100, which is above every other mark of the panel
  whenever the library's default z-orders are below 100. When no cell has the highlighted
  label, the first call is the only scatter call of the panel.
\<close>

theorem highlighted_drawn_last:
  assumes "well_shaped d" and "\<forall>k. dz k < 100"
  shows "\<exists>fig others.
           plot_single_cell_data fstr d t title h = Inr fig \<and>
           sc_x others = map (\<lambda>i. data_x d ! i) (non_matching d h) \<and>
           sc_y others = map (\<lambda>i. data_y d ! i) (non_matching d h) \<and>
           sc_face others = PerPoint (map (\<lambda>i. data_colors d ! i) (non_matching d h)) \<and>
           sc_zorder others = None \<and>
           (if matching d h = [] then scatters_of (ax_artists (fig_ax1 fig)) = [others]
            else
              \<exists>sel. scatters_of (ax_artists (fig_ax1 fig)) = [others, sel] \<and>
                sc_x sel = map (\<lambda>i. data_x d ! i) (matching d h) \<and>
                sc_y sel = map (\<lambda>i. data_y d ! i) (matching d h) \<and>
                sc_face sel = PerPoint (map (\<lambda>i. data_colors d ! i) (matching d h)) \<and>
                sc_zorder sel = Some 100 \<and>
                (\<forall>a \<in> set (ax_artists (fig_ax1 fig)).
                   a \<noteq> Scatter sel \<longrightarrow> artist_zorder dz a < artist_zorder dz (Scatter sel)))"
proof -
  let ?others = "\<lparr>sc_x = map (\<lambda>i. data_x d ! i) (non_matching d h),
                      sc_y = map (\<lambda>i. data_y d ! i) (non_matching d h),
                      sc_face = PerPoint (map (\<lambda>i. data_colors d ! i) (non_matching d h)),
                      sc_s = 50, sc_alpha = 0.6, sc_edgecolors = ''white'', sc_linewidth = 0.5,
                      sc_zorder = None, sc_label = None\<rparr>"
  from plot_panel_a [OF assms(1), of fstr t title h] obtain fig where
    fig: "plot_single_cell_data fstr d t title h = Inr fig"
    and art: "ax_artists (fig_ax1 fig) =
             Scatter ?others #
             (if h \<in> set (data_cell_types d) then
                [Scatter \<lparr>sc_x = map (\<lambda>i. data_x d ! i) (matching d h),
                          sc_y = map (\<lambda>i. data_y d ! i) (matching d h),
                          sc_face = PerPoint (map (\<lambda>i. data_colors d ! i) (matching d h)),
                          sc_s = 120, sc_alpha = 0.9, sc_edgecolors = ''gold'',
                          sc_linewidth = 2.5, sc_zorder = Some 100, sc_label = None\<rparr>]
              else []) @
             [AxLegend \<lparr>lg_handles = Some (map (legend_element h) cell_types_legend),
                        lg_loc = ''upper right'', lg_frameon = True, lg_fancybox = True,
                        lg_shadow = True, lg_fontsize = 11\<rparr>]"
    by blast
  have present: "(matching d h = []) = (h \<notin> set (data_cell_types d))"
    using assms(1) by (auto simp add: matching_def well_shaped_def filter_empty_conv in_set_conv_nth)
  show ?thesis
    apply (rule exI [of _ fig])
    apply (rule exI [of _ ?others])
    using fig assms(2) by (simp add: art present)
qed

theorem highlighted_drawn_last_witness:
  "well_shaped example_data \<and> (\<forall>k. documented_zorder k < 100) \<and>
   (\<exists>fig others sel.
      plot_single_cell_data example_float_str example_data (Finite 2) ''Demo'' ''t_cells'' = Inr fig \<and>
      scatters_of (ax_artists (fig_ax1 fig)) = [others, sel] \<and>
      sc_x others = [Finite 1, Finite 3] \<and> sc_zorder others = None \<and>
      sc_x sel = [Finite 0, Finite 2] \<and> sc_zorder sel = Some 100 \<and>
      (\<forall>a \<in> set (ax_artists (fig_ax1 fig)).
         a \<noteq> Scatter sel \<longrightarrow> artist_zorder documented_zorder a < artist_zorder documented_zorder (Scatter sel)))"
proof -
  have dz: "\<forall>k. documented_zorder k < 100"
    by (simp add: documented_zorder_def split: mark_kind.splits)
  have m: "matching example_data ''t_cells'' = [0, 2]"
    by (simp add: matching_def example_data_def upt_conv_Cons)
  have n: "non_matching example_data ''t_cells'' = [1, 3]"
    by (simp add: non_matching_def example_data_def upt_conv_Cons)
  from highlighted_drawn_last [OF well_shaped_example dz, of example_float_str "Finite 2" "''Demo''" "''t_cells''"]
  obtain fig others sel where
    "plot_single_cell_data example_float_str example_data (Finite 2) ''Demo'' ''t_cells'' = Inr fig"
    "scatters_of (ax_artists (fig_ax1 fig)) = [others, sel]"
    "sc_x others = map (\<lambda>i. data_x example_data ! i) [1, 3]" "sc_zorder others = None"
    "sc_x sel = map (\<lambda>i. data_x example_data ! i) [0, 2]" "sc_zorder sel = Some 100"
    "\<forall>a \<in> set (ax_artists (fig_ax1 fig)).
         a \<noteq> Scatter sel \<longrightarrow> artist_zorder documented_zorder a < artist_zorder documented_zorder (Scatter sel)"
    unfolding m n by auto
  then have "\<exists>fig others sel.
      plot_single_cell_data example_float_str example_data (Finite 2) ''Demo'' ''t_cells'' = Inr fig \<and>
      scatters_of (ax_artists (fig_ax1 fig)) = [others, sel] \<and>
      sc_x others = [Finite 1, Finite 3] \<and> sc_zorder others = None \<and>
      sc_x sel = [Finite 0, Finite 2] \<and> sc_zorder sel = Some 100 \<and>
      (\<forall>a \<in> set (ax_artists (fig_ax1 fig)).
         a \<noteq> Scatter sel \<longrightarrow> artist_zorder documented_zorder a < artist_zorder documented_zorder (Scatter sel))"
    by (intro exI [of _ fig] exI [of _ others] exI [of _ sel]) (simp add: example_data_def)
  with well_shaped_example dz show ?thesis
    by (intro conjI)
qed

text \<open>
  C5 as first stated, for every bundle, fails on one without a cell of the highlighted
  type: with one
  B cell and T cells highlighted the figure is produced, and the only scatter call of the
  first panel is the one for the other cells, which carries no z-order; no call for
  matching cells is issued.
\<close>

theorem highlighted_scatter_counterexample:
  "well_shaped b_cells_only \<and>
   \<not> isl (plot_single_cell_data example_float_str b_cells_only (Finite 2) ''Demo'' ''t_cells'') \<and>
   map sc_zorder (scatters_of (ax_artists (fig_ax1 (projr
     (plot_single_cell_data example_float_str b_cells_only (Finite 2) ''Demo'' ''t_cells''))))) = [None]"
  by (simp add: well_shaped_def b_cells_only_def plot_single_cell_data_def Let_def bool_index_def
      np_eq_def np_invert_def np_any_def scatter_def above_threshold_mask_def np_and_def np_gt_def)

section \<open>Resolution of the arguments\<close>

text \<open>
  C6. For every argument list, the argument block yields the three parameters exactly
  when the list is accepted, and then each parameter is the supplied positional value
  when that position is supplied (the threshold being the float that the first one
  parses to) and the fixed default when it is absent: 2.0 for the threshold,
  "Single Cell Analysis" for the title, "t_cells" for the cell type.
\<close>

theorem defaults_fill_left_to_right:
  "(\<exists>p. resolve_args parse argv = Inr p) = accepted parse argv \<and>
   (\<forall>p. resolve_args parse argv = Inr p \<longrightarrow>
      (case positional argv 1 of None \<Rightarrow> p_threshold p = Finite 2
                               | Some s \<Rightarrow> parse s = Some (p_threshold p)) \<and>
      (case positional argv 2 of None \<Rightarrow> p_title p = ''Single Cell Analysis''
                               | Some s \<Rightarrow> p_title p = s) \<and>
      (case positional argv 3 of None \<Rightarrow> p_cell_type p = ''t_cells''
                               | Some s \<Rightarrow> p_cell_type p = s))"
  using resolve_args_success resolve_args_fields by blast

theorem defaults_fill_left_to_right_witness:
  "accepted (float_of example_library) [''visualize_data.py'', ''2.5''] \<and>
   resolve_args (float_of example_library) [''visualize_data.py'', ''2.5''] =
     Inr \<lparr>p_threshold = Finite 2.5, p_title = ''Single Cell Analysis'', p_cell_type = ''t_cells''\<rparr>"
proof -
  let ?argv = "[''visualize_data.py'', ''2.5'']"
  note inst = defaults_fill_left_to_right [of "float_of example_library" ?argv]
  have acc: "accepted (float_of example_library) ?argv"
    by (simp add: accepted_def positional_def example_library_def)
  with inst obtain p where p: "resolve_args (float_of example_library) ?argv = Inr p"
    by blast
  with inst have "float_of example_library ''2.5'' = Some (p_threshold p)"
    and "p_title p = ''Single Cell Analysis''" and "p_cell_type p = ''t_cells''"
    by (simp_all add: positional_def)
  then have "p = \<lparr>p_threshold = Finite 2.5, p_title = ''Single Cell Analysis'', p_cell_type = ''t_cells''\<rparr>"
    by (cases p) (simp add: example_library_def)
  with p acc show ?thesis
    by simp
qed

section \<open>A threshold that does not parse\<close>

text \<open>
  C7. For every first positional argument that \<^verbatim>\<open>float\<close> rejects, whatever follows it,
  the run ends with the ValueError of the parse uncaught, hence with exit status 1,
  having printed nothing and changed nothing.
\<close>

theorem unparseable_threshold:
  "float_of lib a = None \<Longrightarrow>
   main lib (prog # a # rest) w =
     \<lparr>run_outcome = Uncaught ValueError, run_events = [], run_world = w\<rparr> \<and>
   exit_status (run_outcome (main lib (prog # a # rest) w)) = 1"
  by (simp add: main_def resolve_args_unparseable)

theorem unparseable_threshold_witness:
  "float_of example_library ''abc'' = None \<and>
   main example_library [''visualize_data.py'', ''abc''] example_world =
     \<lparr>run_outcome = Uncaught ValueError, run_events = [], run_world = example_world\<rparr> \<and>
   exit_status (run_outcome (main example_library [''visualize_data.py'', ''abc''] example_world)) = 1"
proof -
  have bad: "float_of example_library ''abc'' = None"
    by (simp add: example_library_def)
  from bad unparseable_threshold [OF bad, of "''visualize_data.py''" "[]" example_world] show ?thesis
    by (intro conjI) simp_all
qed

section \<open>Determinism of a run\<close>



section \<open>Order of the checks, and extra arguments\<close>

text \<open>
  C9. When the first positional argument does not parse as a float, the run ends on the
  parse, before the check of the cell type: whatever the third positional argument is,
  valid or not, the run ends with the uncaught ValueError and not by \<^verbatim>\<open>exit(1)\<close>, and
  neither the invalid-type line nor the line of valid options is printed.
\<close>

theorem threshold_failure_precedes_type_check:
  "float_of lib a = None \<Longrightarrow>
   run_outcome (main lib (prog # a # t # c # rest) w) = Uncaught ValueError \<and>
   run_outcome (main lib (prog # a # t # c # rest) w) \<noteq> Exited 1 \<and>
   Print (invalid_type_message c) \<notin> set (run_events (main lib (prog # a # t # c # rest) w)) \<and>
   Print valid_options_message \<notin> set (run_events (main lib (prog # a # t # c # rest) w))"
  by (simp add: main_def resolve_args_unparseable)

theorem threshold_failure_precedes_type_check_witness:
  "float_of example_library ''abc'' = None \<and> ''x_cells'' \<notin> set valid_types \<and>
   run_outcome (main example_library [''visualize_data.py'', ''abc'', ''Demo'', ''x_cells''] example_world) =
     Uncaught ValueError \<and>
   Print valid_options_message \<notin>
     set (run_events (main example_library [''visualize_data.py'', ''abc'', ''Demo'', ''x_cells''] example_world))"
proof -
  have bad: "float_of example_library ''abc'' = None"
    by (simp add: example_library_def)
  have out: "''x_cells'' \<notin> set valid_types"
    by (simp add: valid_types_def)
  from bad out
    threshold_failure_precedes_type_check [OF bad, of "''visualize_data.py''" "''Demo''" "''x_cells''" "[]" example_world]
  show ?thesis
    by (intro conjI) simp_all
qed

text \<open>
  C10. Two argument lists that agree on the program name and the first three positional
  arguments, as far as these are supplied, give the same run on the same world: what
  follows the third positional argument is never read.
\<close>

theorem extra_arguments_ignored:
  "take 4 argv = take 4 argv' \<Longrightarrow> main lib argv w = main lib argv' w"
  by (metis main_take)

theorem extra_arguments_ignored_witness:
  "take 4 [''visualize_data.py'', ''2.5'', ''Demo'', ''b_cells'', ''more'', ''and more''] =
   take 4 [''visualize_data.py'', ''2.5'', ''Demo'', ''b_cells''] \<and>
   main example_library [''visualize_data.py'', ''2.5'', ''Demo'', ''b_cells'', ''more'', ''and more''] example_world =
   main example_library [''visualize_data.py'', ''2.5'', ''Demo'', ''b_cells''] example_world"
proof -
  have same: "take 4 [''visualize_data.py'', ''2.5'', ''Demo'', ''b_cells'', ''more'', ''and more''] =
      take 4 [''visualize_data.py'', ''2.5'', ''Demo'', ''b_cells'']"
    by simp
  from same extra_arguments_ignored [OF same, of example_library example_world] show ?thesis
    by (intro conjI)
qed

end
